theory Spec2Isabelle
  imports Main
begin

section \<open>Large-scale Gaussian process regression: the notebook's two estimators\<close>

text \<open>
  The notebook \<open>sem4-GP/3_LargeScaleGP.ipynb\<close> defines two scikit-learn style estimators:
  \<open>SparseGPModel\<close>, a wrapper around GPy's sparse regression with randomly chosen inducing
  inputs, and \<open>RFF\<close>, a random Fourier feature map. Both are Python classes whose methods
  mutate \<open>self\<close>; here a class is a record, a method takes the instance and returns the
  outcome together with the instance it leaves behind, and a raised exception is the
  \<open>Inl\<close> branch of the outcome.

  The notebook is an exercise sheet: in \<open>RFF\<close> the right-hand sides of \<open>self.w =\<close>,
  \<open>self.u =\<close> and \<open>Z =\<close> are left open. They are parameters of the model below. numpy's
  random generator and GPy are libraries outside the notebook; they are parameters as well.
\<close>

subsection \<open>Exceptions\<close>

datatype error =
    NotFittedError
  | AttributeError string
  | IndexError
  | ValueError

type_synonym ('r, 's) outcome = "(error + 'r) \<times> 's"

subsection \<open>Two-dimensional arrays\<close>

text \<open>
  A numpy array of shape \<open>(N, d)\<close>: the rows, and the number of columns kept apart so that
  \<open>X.shape[1]\<close> is defined for an array without rows. The entries are of any type with
  \<open>0\<close>, \<open>+\<close> and \<open>*\<close>; no law of arithmetic is assumed of them.
\<close>

record 'a array2 =
  ncols :: nat
  rows :: "'a list list"

definition shape0 :: "'a array2 \<Rightarrow> nat" where
  "shape0 X = length (rows X)"

definition shape1 :: "'a array2 \<Rightarrow> nat" where
  "shape1 X = ncols X"

definition well_shaped :: "'a array2 \<Rightarrow> bool" where
  "well_shaped X = list_all (\<lambda>r. length r = ncols X) (rows X)"

text \<open>\<open>Z.T\<close>: row \<open>j\<close> of the result is column \<open>j\<close> of \<open>Z\<close>.\<close>

definition array_T :: "'a array2 \<Rightarrow> 'a array2" where
  "array_T Z = \<lparr>ncols = length (rows Z),
                rows = map (\<lambda>j. map (\<lambda>r. r ! j) (rows Z)) [0..<ncols Z]\<rparr>"

text \<open>The sum of the products of two vectors, accumulated from the left.\<close>

definition inner_prod :: "'a::{zero,plus,times} list \<Rightarrow> 'a list \<Rightarrow> 'a" where
  "inner_prod xs ys = foldl (\<lambda>s (x, y). s + x * y) 0 (zip xs ys)"

text \<open>\<open>A.dot(B)\<close>: numpy raises \<open>ValueError\<close> when the inner dimensions differ.\<close>

definition array_dot :: "'a::{zero,plus,times} array2 \<Rightarrow> 'a array2 \<Rightarrow> error + 'a array2" where
  "array_dot A B =
     (if ncols A \<noteq> length (rows B) then Inl ValueError
      else Inr \<lparr>ncols = ncols B,
                rows = map (\<lambda>a. map (\<lambda>j. inner_prod a (map (\<lambda>b. b ! j) (rows B)))
                                      [0..<ncols B])
                           (rows A)\<rparr>)"

text \<open>\<open>idx[:m]\<close>: a negative bound counts from the end, a bound past the end is clamped.\<close>

definition slice_to :: "'b list \<Rightarrow> int \<Rightarrow> 'b list" where
  "slice_to xs m =
     (if 0 \<le> m then take (nat m) xs else take (length xs - nat (- m)) xs)"

text \<open>\<open>X[idx]\<close> with a list of row numbers: \<open>IndexError\<close> when one is out of range.\<close>

definition take_rows :: "'a array2 \<Rightarrow> nat list \<Rightarrow> error + 'a array2" where
  "take_rows X idx =
     (if list_all (\<lambda>i. i < length (rows X)) idx
      then Inr \<lparr>ncols = ncols X, rows = map (\<lambda>i. rows X ! i) idx\<rparr>
      else Inl IndexError)"

subsection \<open>The libraries outside the notebook\<close>

text \<open>
  GPy, as \<open>SparseGPModel\<close> uses it: the constructor \<open>GPy.models.SparseGPRegression\<close>,
  \<open>inducing_inputs.fix()\<close>, \<open>optimize(max_iters)\<close> and \<open>predict\<close>, which returns the pair
  of mean and variance. \<open>'m\<close> is the type of GPy's model objects, \<open>'k\<close> of its kernels.
  Each call may raise.
\<close>

record ('a, 'k, 'm) gpy =
  SparseGPRegression :: "'a array2 \<Rightarrow> 'a array2 \<Rightarrow> 'k \<Rightarrow> 'a array2 \<Rightarrow> error + 'm"
  inducing_inputs_fix :: "'m \<Rightarrow> error + 'm"
  optimize :: "nat \<Rightarrow> 'm \<Rightarrow> error + 'm"
  gpy_predict :: "'m \<Rightarrow> 'a array2 \<Rightarrow> error + ('a array2 \<times> 'a array2)"

text \<open>
  \<open>np.random.permutation(n)\<close> reads and advances numpy's global generator, whose state has
  type \<open>'g\<close>. numpy documents the result as a permutation of \<open>range(n)\<close>.
\<close>

type_synonym 'g np_permutation = "nat \<Rightarrow> 'g \<Rightarrow> nat list \<times> 'g"

definition is_permutation :: "nat list \<Rightarrow> nat \<Rightarrow> bool" where
  "is_permutation idx n = (distinct idx \<and> set idx = {..<n})"

subsection \<open>SparseGPModel\<close>

text \<open>
  The attributes \<open>kernel_\<close> and \<open>model_\<close> are \<open>kernel'\<close> and \<open>model'\<close> here. \<open>model_\<close> is
  assigned in \<open>fit\<close> only, so before \<open>fit\<close> the attribute does not exist: \<open>None\<close>.
\<close>

record ('k, 'm) SparseGPModel =
  kernel' :: 'k
  num_inducing :: int
  model' :: "'m option"

definition SparseGPModel_init :: "'k \<Rightarrow> int \<Rightarrow> ('k, 'm) SparseGPModel" where
  "SparseGPModel_init k n = \<lparr>kernel' = k, num_inducing = n, model' = None\<rparr>"

text \<open>The first two lines of \<open>fit\<close>: \<open>Z = X[idx[:self.num_inducing]]\<close>.\<close>

definition inducing_inputs :: "'a array2 \<Rightarrow> nat list \<Rightarrow> int \<Rightarrow> error + 'a array2" where
  "inducing_inputs X idx m = take_rows X (slice_to idx m)"

text \<open>
  \<open>fit\<close> returns nothing. Where a library call raises, the instance is left as the
  assignments before the call made it.
\<close>

definition SparseGPModel_fit ::
  "('a, 'k, 'm) gpy \<Rightarrow> 'g np_permutation \<Rightarrow> ('k, 'm) SparseGPModel \<Rightarrow> 'a array2 \<Rightarrow> 'a array2
     \<Rightarrow> 'g \<Rightarrow> (unit, ('k, 'm) SparseGPModel \<times> 'g) outcome" where
  "SparseGPModel_fit lib permutation self X y g =
     (case permutation (shape0 X) g of (idx, g') \<Rightarrow>
       (case inducing_inputs X idx (num_inducing self) of
          Inl e \<Rightarrow> (Inl e, self, g')
        | Inr Z \<Rightarrow>
           (case SparseGPRegression lib X y (kernel' self) Z of
              Inl e \<Rightarrow> (Inl e, self, g')
            | Inr m0 \<Rightarrow>
               (case inducing_inputs_fix lib m0 of
                  Inl e \<Rightarrow> (Inl e, self\<lparr>model' := Some m0\<rparr>, g')
                | Inr m1 \<Rightarrow>
                   (case optimize lib 100 m1 of
                      Inl e \<Rightarrow> (Inl e, self\<lparr>model' := Some m1\<rparr>, g')
                    | Inr m2 \<Rightarrow> (Inr (), self\<lparr>model' := Some m2\<rparr>, g'))))))"

text \<open>
  What a Python call can return here: an array, or a tuple of values.
\<close>

datatype 'a pyval = PArray "'a array2" | PTuple "'a pyval list"

text \<open>
  \<open>prediction, _ = self.model_.predict(X); return prediction\<close>.
\<close>

definition SparseGPModel_predict ::
  "('a, 'k, 'm) gpy \<Rightarrow> ('k, 'm) SparseGPModel \<Rightarrow> 'a array2
     \<Rightarrow> ('a pyval, ('k, 'm) SparseGPModel) outcome" where
  "SparseGPModel_predict lib self X =
     (case model' self of
        None \<Rightarrow> (Inl (AttributeError ''model_''), self)
      | Some m \<Rightarrow>
         (case gpy_predict lib m X of
            Inl e \<Rightarrow> (Inl e, self)
          | Inr (prediction, _) \<Rightarrow> (Inr (PArray prediction), self)))"

subsection \<open>RFF\<close>

record 'a RFF =
  gamma :: 'a
  kernel :: string
  n_components :: int
  fitted :: bool
  w :: "'a array2 option"
  u :: "'a list option"

text \<open>
  \<open>__init__(self, gamma=1, n_components=50, kernel="rbf")\<close>. \<open>w\<close> and \<open>u\<close> are assigned in
  \<open>fit\<close> only.
\<close>

definition RFF_init :: "'a \<Rightarrow> int \<Rightarrow> string \<Rightarrow> 'a RFF" where
  "RFF_init g n k =
     \<lparr>gamma = g, kernel = k, n_components = n, fitted = False, w = None, u = None\<rparr>"

text \<open>
  The expression the source leaves open after \<open>Z =\<close> in \<open>transform\<close>: it is evaluated with
  \<open>self\<close> and \<open>X\<close> in scope, may read and advance numpy's global generator as the draws
  of \<open>fit\<close> do, and may raise. An expression assigns nothing to \<open>self\<close>.
\<close>

type_synonym ('a, 'g) feature_map = "'a RFF \<Rightarrow> 'a array2 \<Rightarrow> 'g \<Rightarrow> (error + 'a array2) \<times> 'g"

definition transform ::
  "('a, 'g) feature_map \<Rightarrow> 'a RFF \<Rightarrow> 'a array2 \<Rightarrow> 'g \<Rightarrow> ('a array2, 'a RFF \<times> 'g) outcome" where
  "transform Z_expr self X g =
     (if \<not> fitted self then (Inl NotFittedError, self, g)
      else (case Z_expr self X g of (Z, g') \<Rightarrow> (Z, self, g')))"

definition compute_kernel ::
  "('a::{zero,plus,times}, 'g) feature_map \<Rightarrow> 'a RFF \<Rightarrow> 'a array2 \<Rightarrow> 'g
     \<Rightarrow> ('a array2, 'a RFF \<times> 'g) outcome" where
  "compute_kernel Z_expr self X g =
     (if \<not> fitted self then (Inl NotFittedError, self, g)
      else (case transform Z_expr self X g of
              (Inl e, self', g') \<Rightarrow> (Inl e, self', g')
            | (Inr Z, self', g') \<Rightarrow> (array_dot Z (array_T Z), self', g')))"

text \<open>
  Modelled from the spec: the feature expression that the source leaves open after
  \<open>Z =\<close>. The spec says of \<open>transform\<close>: "Phi[i,j] = sqrt(2/M) cos(w_j . x_i + b_j)", and
  of \<open>w\<close> and \<open>b\<close>: "drawn once at fit time and frozen; reused identically for every
  subsequent transform call". So the features are computed from the stored \<open>w\<close>, the
  stored phases \<open>u\<close>, \<open>M = n_components\<close> and \<open>X\<close>; the generator is not read. The
  arithmetic of the formula is the parameter \<open>phi\<close>, which raises where numpy does (an
  attribute that \<open>fit\<close> did not set, shapes that do not agree).
\<close>

definition stored_features ::
  "('a array2 option \<Rightarrow> 'a list option \<Rightarrow> int \<Rightarrow> 'a array2 \<Rightarrow> error + 'a array2)
     \<Rightarrow> ('a, 'g) feature_map" where
  "stored_features phi self X g = (phi (w self) (u self) (n_components self) X, g)"

text \<open>
  Modelled from the spec: the draws that the source leaves open after \<open>self.w =\<close> (one per
  kernel) and \<open>self.u =\<close>. The spec says of \<open>fit\<close>: "determines d from X's shape; draws M
  frequency vectors w_i i.i.d. from the kernel's spectral density -- for RBF, p(w) is a
  zero-mean Gaussian with covariance 2 gamma I; for Laplace, p(w) follows a
  Cauchy(0, gamma) distribution per dimension. Draws M phases b_i i.i.d. Uniform(0, 2 pi)."
  So a draw of \<open>w\<close> is given \<open>gamma\<close>, \<open>M = n_components\<close>, \<open>d\<close> and the state of the random
  generator, a draw of the phases \<open>M\<close> and that state; each returns its sample and the
  state it leaves, or raises (numpy refuses a negative size).
\<close>

record ('a, 'g) draws =
  draw_rbf :: "'a \<Rightarrow> int \<Rightarrow> nat \<Rightarrow> 'g \<Rightarrow> error + ('a array2 \<times> 'g)"
  draw_laplace :: "'a \<Rightarrow> int \<Rightarrow> nat \<Rightarrow> 'g \<Rightarrow> error + ('a array2 \<times> 'g)"
  draw_uniform :: "int \<Rightarrow> 'g \<Rightarrow> error + ('a list \<times> 'g)"

text \<open>
  \<open>fit(self, X, y=None)\<close>. With a kernel that is neither \<open>"rbf"\<close> nor \<open>"laplace"\<close> no
  branch assigns \<open>self.w\<close>. The method returns \<open>self\<close>. Where a draw raises, the instance
  is left as the assignments before it made it.
\<close>

definition RFF_fit ::
  "('a, 'g) draws \<Rightarrow> 'a RFF \<Rightarrow> 'a array2 \<Rightarrow> 'y option \<Rightarrow> 'g \<Rightarrow> ('a RFF, 'a RFF \<times> 'g) outcome" where
  "RFF_fit dr self X y g =
     (let d = shape1 X in
      case (if kernel self = ''rbf'' then
              (case draw_rbf dr (gamma self) (n_components self) d g of
                 Inl e \<Rightarrow> Inl e
               | Inr (wv, g1) \<Rightarrow> Inr (self\<lparr>w := Some wv\<rparr>, g1))
            else if kernel self = ''laplace'' then
              (case draw_laplace dr (gamma self) (n_components self) d g of
                 Inl e \<Rightarrow> Inl e
               | Inr (wv, g1) \<Rightarrow> Inr (self\<lparr>w := Some wv\<rparr>, g1))
            else Inr (self, g)) of
        Inl e \<Rightarrow> (Inl e, self, g)
      | Inr (self1, g1) \<Rightarrow>
         (case draw_uniform dr (n_components self1) g1 of
            Inl e \<Rightarrow> (Inl e, self1, g1)
          | Inr (uv, g2) \<Rightarrow>
             (let self2 = self1\<lparr>u := Some uv, fitted := True\<rparr>
              in (Inr self2, self2, g2))))"

subsection \<open>The call interface of \<open>RFF\<close>\<close>

text \<open>
  The parameters of a \<open>def\<close> after \<open>self\<close>, in order, and how many of them have no default.
  Python binds the positional arguments to the leading parameters and each keyword to the
  parameter of that name; it raises \<open>TypeError\<close> for a positional argument too many, for a
  keyword that names no parameter or one already bound, and for a parameter without
  default left unbound.
\<close>

record py_signature =
  params :: "string list"
  required :: nat

definition RFF_init_signature :: py_signature where
  "RFF_init_signature = \<lparr>params = [''gamma'', ''n_components'', ''kernel''], required = 0\<rparr>"

definition RFF_fit_signature :: py_signature where
  "RFF_fit_signature = \<lparr>params = [''X'', ''y''], required = 1\<rparr>"

definition call_accepts :: "py_signature \<Rightarrow> nat \<Rightarrow> string list \<Rightarrow> bool" where
  "call_accepts sg npos kws =
     (npos \<le> length (params sg) \<and> distinct kws \<and>
      list_all (\<lambda>k. k \<in> set (drop npos (params sg))) kws \<and>
      list_all (\<lambda>p. p \<in> set kws) (drop npos (take (required sg) (params sg))))"

subsection \<open>Stand-ins for the libraries\<close>

text \<open>
  Concrete values for the parameters, to run the model on examples. A GPy whose model
  object is the array of inducing inputs it was built from, whose calls all succeed, and
  which predicts mean 0 and variance 1 at every query point.
\<close>

definition constant_gpy :: "(int, unit, int array2) gpy" where
  "constant_gpy =
     \<lparr>SparseGPRegression = (\<lambda>X y k Z. Inr Z),
      inducing_inputs_fix = (\<lambda>m. Inr m),
      optimize = (\<lambda>n m. Inr m),
      gpy_predict = (\<lambda>m X. Inr (\<lparr>ncols = 1, rows = map (\<lambda>r. [0]) (rows X)\<rparr>,
                                 \<lparr>ncols = 1, rows = map (\<lambda>r. [1]) (rows X)\<rparr>))\<rparr>"

text \<open>
  A random generator whose state is a counter: a draw of shape \<open>(M, d)\<close> is filled with
  the counter and advances it; a negative size raises \<open>ValueError\<close>.
\<close>

definition counter_draws :: "(int, nat) draws" where
  "counter_draws =
     \<lparr>draw_rbf = (\<lambda>gm m d g. if m < 0 then Inl ValueError
                    else Inr (\<lparr>ncols = d, rows = replicate (nat m) (replicate d (int g))\<rparr>, Suc g)),
      draw_laplace = (\<lambda>gm m d g. if m < 0 then Inl ValueError
                    else Inr (\<lparr>ncols = d, rows = replicate (nat m) (replicate d (- int g))\<rparr>, Suc g)),
      draw_uniform = (\<lambda>m g. if m < 0 then Inl ValueError
                    else Inr (replicate (nat m) (int g), Suc g))\<rparr>"

text \<open>A feature arithmetic for examples: the stored \<open>w\<close> itself, whatever \<open>X\<close> is.\<close>

definition w_itself :: "int array2 option \<Rightarrow> int list option \<Rightarrow> int \<Rightarrow> int array2 \<Rightarrow> error + int array2" where
  "w_itself wo uo m X = (case wo of None \<Rightarrow> Inl (AttributeError ''w'') | Some wv \<Rightarrow> Inr wv)"

text \<open>
  Example data: three training points in one dimension, a fitted mapper, and a mapper
  with the same hyperparameters that an earlier \<open>fit\<close> left with other draws.
\<close>

definition example_X :: "int array2" where
  "example_X = \<lparr>ncols = 1, rows = [[10], [20], [30]]\<rparr>"

definition example_y :: "int array2" where
  "example_y = \<lparr>ncols = 1, rows = [[1], [2], [3]]\<rparr>"

definition example_mapper :: "int RFF" where
  "example_mapper =
     \<lparr>gamma = 1, kernel = ''rbf'', n_components = 2, fitted = True,
      w = Some \<lparr>ncols = 2, rows = [[1, 2], [3, 4]]\<rparr>, u = Some [0, 0]\<rparr>"

definition refitted_mapper :: "int RFF" where
  "refitted_mapper =
     \<lparr>gamma = 1, kernel = ''rbf'', n_components = 2, fitted = True,
      w = Some \<lparr>ncols = 1, rows = [[5], [6]]\<rparr>, u = Some [3, 4]\<rparr>"

definition example_regressor :: "(unit, int array2) SparseGPModel" where
  "example_regressor =
     \<lparr>kernel' = (), num_inducing = 2, model' = Some \<lparr>ncols = 1, rows = [[30], [10]]\<rparr>\<rparr>"

section \<open>Properties\<close>

subsection \<open>Calls before \<open>fit\<close>\<close>

text \<open>
  Claim C4. On an RFF instance on which \<open>fit\<close> has not been called the flag \<open>fitted\<close> is
  still \<open>False\<close>, as the constructor set it; \<open>transform\<close> and \<open>compute_kernel\<close> then both
  raise \<open>NotFittedError\<close>, whatever the input, the feature expression and the state of the
  generator, and leave the instance and the generator as they were.
\<close>

theorem unfitted_RFF_raises_NotFitted:
  "\<not> fitted (RFF_init gm n k) \<and>
   (\<not> fitted self \<longrightarrow>
      transform Z_expr self X g = (Inl NotFittedError, self, g) \<and>
      compute_kernel Z_expr self X g = (Inl NotFittedError, self, g))"
  by (simp add: RFF_init_def transform_def compute_kernel_def)

theorem unfitted_RFF_raises_NotFitted_witness:
  "transform (\<lambda>r X g. (Inr X, Suc g)) (RFF_init (1::int) 50 ''rbf'')
       \<lparr>ncols = 1, rows = [[2], [3]]\<rparr> (7::nat)
     = (Inl NotFittedError, RFF_init 1 50 ''rbf'', 7) \<and>
   compute_kernel (\<lambda>r X g. (Inr X, Suc g)) (RFF_init (1::int) 50 ''rbf'')
       \<lparr>ncols = 1, rows = [[2], [3]]\<rparr> (7::nat)
     = (Inl NotFittedError, RFF_init 1 50 ''rbf'', 7)"
  using unfitted_RFF_raises_NotFitted
    [of "1::int" 50 "''rbf''" "RFF_init (1::int) 50 ''rbf''" "\<lambda>r X g. (Inr X, Suc g)"
        "\<lparr>ncols = 1, rows = [[2], [3]]\<rparr>" "7::nat"]
  by simp

subsection \<open>The approximate Gram matrix\<close>

lemma array_T_column:
  assumes "well_shaped Z" "j < length (rows Z)"
  shows "map (\<lambda>b. b ! j) (rows (array_T Z)) = rows Z ! j"
proof -
  have len: "length (rows Z ! j) = ncols Z"
    using assms by (simp add: well_shaped_def list_all_length)
  have "map (\<lambda>b. b ! j) (rows (array_T Z)) = map (\<lambda>k. rows Z ! j ! k) [0..<ncols Z]"
    using assms(2) by (simp add: array_T_def)
  also have "\<dots> = rows Z ! j"
    using len by (metis map_nth)
  finally show ?thesis .
qed

text \<open>
  Claim C2. On a fitted mapper, for an input \<open>X\<close> on which \<open>transform\<close> returns \<open>Z\<close>,
  \<open>compute_kernel(X)\<close> returns the product \<open>Z.dot(Z.T)\<close> of that \<open>Z\<close> with its transpose,
  and leaves the instance and the generator as that \<open>transform\<close> leaves them.
  The product is always defined (the inner dimensions agree), has one row and one column
  per row of \<open>Z\<close>, and for a well-shaped \<open>Z\<close> its entry \<open>(i, j)\<close> is the inner product of
  rows \<open>i\<close> and \<open>j\<close> of \<open>Z\<close>.
\<close>

theorem compute_kernel_is_Z_dot_Z_T:
  assumes "fitted self" and "transform Z_expr self X g = (Inr Z, self', g')"
  shows "compute_kernel Z_expr self X g = (array_dot Z (array_T Z), self', g') \<and>
         (\<exists>K. array_dot Z (array_T Z) = Inr K \<and> shape0 K = shape0 Z \<and> shape1 K = shape0 Z \<and>
              (well_shaped Z \<longrightarrow>
                 (\<forall>i<shape0 Z. \<forall>j<shape0 Z.
                    rows K ! i ! j = inner_prod (rows Z ! i) (rows Z ! j))))"
proof -
  have ck: "compute_kernel Z_expr self X g = (array_dot Z (array_T Z), self', g')"
    using assms by (simp add: compute_kernel_def)
  define K where "K = \<lparr>ncols = ncols (array_T Z),
      rows = map (\<lambda>a. map (\<lambda>j. inner_prod a (map (\<lambda>b. b ! j) (rows (array_T Z))))
                             [0..<ncols (array_T Z)]) (rows Z)\<rparr>"
  have shape: "length (rows (array_T Z)) = ncols Z" "ncols (array_T Z) = length (rows Z)"
    by (simp_all add: array_T_def)
  have dot: "array_dot Z (array_T Z) = Inr K"
    by (simp add: array_dot_def shape K_def)
  have sh: "shape0 K = shape0 Z" "shape1 K = shape0 Z"
    by (simp_all add: K_def shape0_def shape1_def shape)
  have entry: "rows K ! i ! j = inner_prod (rows Z ! i) (rows Z ! j)"
    if "well_shaped Z" "i < shape0 Z" "j < shape0 Z" for i j
    using that by (simp add: K_def shape0_def shape array_T_column)
  show ?thesis using ck dot sh entry by blast
qed

theorem compute_kernel_is_Z_dot_Z_T_witness:
  "fitted example_mapper \<and>
   transform (stored_features w_itself) example_mapper example_X (7::nat)
     = (Inr \<lparr>ncols = 2, rows = [[1, 2], [3, 4]]\<rparr>, example_mapper, 7) \<and>
   compute_kernel (stored_features w_itself) example_mapper example_X (7::nat)
     = (array_dot \<lparr>ncols = 2, rows = [[1, 2], [3, 4]]\<rparr>
                  (array_T \<lparr>ncols = 2, rows = [[1, 2], [3, 4]]\<rparr>), example_mapper, 7) \<and>
   array_dot \<lparr>ncols = 2, rows = [[1, 2], [3, 4::int]]\<rparr>
             (array_T \<lparr>ncols = 2, rows = [[1, 2], [3, 4]]\<rparr>)
     = Inr \<lparr>ncols = 2, rows = [[5, 11], [11, 25]]\<rparr>"
proof -
  have h1: "fitted example_mapper"
    by (simp add: example_mapper_def)
  have h2: "transform (stored_features w_itself) example_mapper example_X (7::nat)
              = (Inr \<lparr>ncols = 2, rows = [[1, 2], [3, 4]]\<rparr>, example_mapper, 7)"
    by (simp add: transform_def stored_features_def w_itself_def example_mapper_def)
  have h3: "array_dot \<lparr>ncols = 2, rows = [[1, 2], [3, 4::int]]\<rparr>
             (array_T \<lparr>ncols = 2, rows = [[1, 2], [3, 4]]\<rparr>)
     = Inr \<lparr>ncols = 2, rows = [[5, 11], [11, 25]]\<rparr>"
    by code_simp
  show ?thesis
    using compute_kernel_is_Z_dot_Z_T [OF h1 h2] h1 h2 h3 by blast
qed

subsection \<open>Repeated calls\<close>

text \<open>
  Claim C9. On a fitted mapper \<open>transform(X)\<close> returns the features of the stored \<open>w\<close>
  and \<open>u\<close>, and neither it nor \<open>compute_kernel\<close> changes the instance (so \<open>w\<close>, \<open>u\<close> and
  \<open>fitted\<close> stay as \<open>fit\<close> left them) or draws from the generator. A second \<open>transform\<close>
  of the same input, on the instance the first call leaves and from whatever state the
  generator is in by then, returns the same output as the first.
\<close>

theorem transform_twice_same_output:
  assumes "fitted self"
  shows "transform (stored_features phi) self X g1
           = (phi (w self) (u self) (n_components self) X, self, g1) \<and>
         snd (compute_kernel (stored_features phi) self X g1) = (self, g1) \<and>
         (case transform (stored_features phi) self X g1 of (out1, self1, g1') \<Rightarrow>
            (case transform (stored_features phi) self1 X g2 of (out2, self2, g2') \<Rightarrow>
               out2 = out1 \<and> w self2 = w self \<and> u self2 = u self \<and>
               fitted self2 = fitted self \<and> g2' = g2))"
  using assms
  by (simp add: transform_def compute_kernel_def stored_features_def split: sum.splits)

theorem transform_twice_same_output_witness:
  "fitted example_mapper \<and>
   transform (stored_features w_itself) example_mapper example_X (7::nat)
     = (Inr \<lparr>ncols = 2, rows = [[1, 2], [3, 4]]\<rparr>, example_mapper, 7) \<and>
   transform (stored_features w_itself) example_mapper example_X (9::nat)
     = (Inr \<lparr>ncols = 2, rows = [[1, 2], [3, 4]]\<rparr>, example_mapper, 9)"
proof -
  have h: "fitted example_mapper"
    by (simp add: example_mapper_def)
  have ev: "w_itself (w example_mapper) (u example_mapper) (n_components example_mapper) example_X
              = Inr \<lparr>ncols = 2, rows = [[1, 2], [3, 4]]\<rparr>"
    by (simp add: w_itself_def example_mapper_def)
  have t7: "transform (stored_features w_itself) example_mapper example_X (7::nat)
     = (Inr \<lparr>ncols = 2, rows = [[1, 2], [3, 4]]\<rparr>, example_mapper, 7)"
    using transform_twice_same_output [OF h, of w_itself example_X "7::nat" "9::nat"]
    by (simp only: ev)
  have t9: "transform (stored_features w_itself) example_mapper example_X (9::nat)
     = (Inr \<lparr>ncols = 2, rows = [[1, 2], [3, 4]]\<rparr>, example_mapper, 9)"
    using transform_twice_same_output [OF h, of w_itself example_X "9::nat" "7::nat"]
    by (simp only: ev)
  show ?thesis
    using h t7 t9 by blast
qed

subsection \<open>What \<open>fit\<close> of the mapper depends on\<close>

text \<open>
  Claim C10. \<open>RFF.fit\<close> reads of \<open>X\<close> only its number of columns and never reads \<open>y\<close>:
  for two inputs with the same number of columns and any two \<open>y\<close>, from the same state
  of the random generator, \<open>fit\<close> has the same outcome, leaves the same instance (\<open>w\<close>,
  \<open>u\<close>, \<open>fitted\<close>) and the same generator state. Being the same function of the generator
  state, the stored parameters are identically distributed as well.
\<close>

theorem RFF_fit_depends_on_columns_only:
  assumes "shape1 X1 = shape1 X2"
  shows "RFF_fit dr self X1 y1 g = RFF_fit dr self X2 y2 g"
  using assms by (simp add: RFF_fit_def)

theorem RFF_fit_depends_on_columns_only_witness:
  "shape1 \<lparr>ncols = 2, rows = [[5, 6::int]]\<rparr> = shape1 \<lparr>ncols = 2, rows = [[7, 8], [9, 10::int]]\<rparr> \<and>
   RFF_fit counter_draws (RFF_init 1 2 ''rbf'') \<lparr>ncols = 2, rows = [[5, 6]]\<rparr>
       (None :: int list option) 7
     = RFF_fit counter_draws (RFF_init 1 2 ''rbf'') \<lparr>ncols = 2, rows = [[7, 8], [9, 10]]\<rparr>
         (Some [1, 2 :: int]) 7"
proof -
  have h: "shape1 \<lparr>ncols = 2, rows = [[5, 6::int]]\<rparr>
             = shape1 \<lparr>ncols = 2, rows = [[7, 8], [9, 10::int]]\<rparr>"
    by (simp add: shape1_def)
  show ?thesis
    by (rule conjI [OF h RFF_fit_depends_on_columns_only [OF h]])
qed

subsection \<open>The interface of the mapper and its randomness\<close>

text \<open>
  Claim C3, as stated, fails on the interface: the constructor and \<open>fit\<close> take no seed.
  A call of either with a keyword \<open>seed\<close> or \<open>random_state\<close>, or with one positional
  argument more than \<open>gamma, n_components, kernel\<close> resp. \<open>X, y\<close>, is rejected.
\<close>

theorem RFF_interface_has_no_seed:
  "\<not> call_accepts RFF_init_signature 0 [''seed''] \<and>
   \<not> call_accepts RFF_init_signature 0 [''random_state''] \<and>
   \<not> call_accepts RFF_init_signature 4 [] \<and>
   \<not> call_accepts RFF_fit_signature 1 [''seed''] \<and>
   \<not> call_accepts RFF_fit_signature 1 [''random_state''] \<and>
   \<not> call_accepts RFF_fit_signature 3 []"
  by (simp add: call_accepts_def RFF_init_signature_def RFF_fit_signature_def)

lemma RFF_fit_success:
  assumes "RFF_fit dr a X y g = (Inr ra, sa, ga)"
  shows "\<exists>uv g1. draw_uniform dr (n_components a) g1 = Inr (uv, ga) \<and>
           (if kernel a = ''rbf'' then
              (\<exists>wv. draw_rbf dr (gamma a) (n_components a) (shape1 X) g = Inr (wv, g1) \<and>
                    ra = a\<lparr>w := Some wv, u := Some uv, fitted := True\<rparr>)
            else if kernel a = ''laplace'' then
              (\<exists>wv. draw_laplace dr (gamma a) (n_components a) (shape1 X) g = Inr (wv, g1) \<and>
                    ra = a\<lparr>w := Some wv, u := Some uv, fitted := True\<rparr>)
            else g1 = g \<and> ra = a\<lparr>u := Some uv, fitted := True\<rparr>) \<and>
           sa = ra"
  using assms
  by (auto simp: RFF_fit_def Let_def split: if_splits sum.splits prod.splits)

text \<open>
  Claim C3, amended. The randomness of \<open>fit\<close> is the state of the ambient generator, which
  the caller seeds. Take two mappers that agree in \<open>gamma\<close>, \<open>n_components\<close> and \<open>kernel\<close>
  (\<open>"rbf"\<close> or \<open>"laplace"\<close>), whatever an earlier \<open>fit\<close> has left in either, and fit both on
  the same \<open>X\<close>, with any \<open>y\<close>, each from the same generator state. If \<open>fit\<close> of the first
  succeeds, so does \<open>fit\<close> of the second, and both leave the same instance and the same
  generator state: the same \<open>w\<close> and \<open>u\<close>, hence the same features. What the instance
  holds are the draws of its own \<open>fit\<close>: \<open>w\<close> is the kernel's draw for \<open>gamma\<close>, \<open>M\<close> and
  \<open>d = X.shape[1]\<close> from the generator state at entry, \<open>u\<close> the uniform draw from the
  state after it.
\<close>

theorem same_generator_state_same_draws:
  assumes "gamma a = gamma b" and "n_components a = n_components b"
    and "kernel a = kernel b" and "kernel a = ''rbf'' \<or> kernel a = ''laplace''"
    and "RFF_fit dr a X y1 g = (Inr ra, sa, ga)"
  shows "RFF_fit dr b X y2 g = (Inr ra, ra, ga) \<and> sa = ra \<and> fitted ra \<and>
         (\<exists>wv uv g1.
            (if kernel a = ''rbf''
             then draw_rbf dr (gamma a) (n_components a) (shape1 X) g
             else draw_laplace dr (gamma a) (n_components a) (shape1 X) g) = Inr (wv, g1) \<and>
            draw_uniform dr (n_components a) g1 = Inr (uv, ga) \<and>
            w ra = Some wv \<and> u ra = Some uv)"
proof -
  obtain uv g1 wv where
    du: "draw_uniform dr (n_components a) g1 = Inr (uv, ga)" and
    dw: "(if kernel a = ''rbf''
          then draw_rbf dr (gamma a) (n_components a) (shape1 X) g
          else draw_laplace dr (gamma a) (n_components a) (shape1 X) g) = Inr (wv, g1)" and
    ra: "ra = a\<lparr>w := Some wv, u := Some uv, fitted := True\<rparr>" and
    sa: "sa = ra"
    using RFF_fit_success [OF assms(5)] assms(4)
    by (auto split: if_splits)
  have same: "a\<lparr>w := Some wv, u := Some uv, fitted := True\<rparr>
                = b\<lparr>w := Some wv, u := Some uv, fitted := True\<rparr>"
    using assms(1-3) by (cases a, cases b) simp
  have fit_b: "RFF_fit dr b X y2 g = (Inr ra, ra, ga)"
    using assms(1-4) du dw ra same
    by (auto simp: RFF_fit_def Let_def split: if_splits)
  have "fitted ra" "w ra = Some wv" "u ra = Some uv"
    using ra by simp_all
  then show ?thesis
    using fit_b sa du dw by blast
qed

theorem same_generator_state_same_draws_witness:
  "gamma (RFF_init (1::int) 2 ''rbf'') = gamma refitted_mapper \<and>
   w (RFF_init (1::int) 2 ''rbf'') \<noteq> w refitted_mapper \<and>
   RFF_fit counter_draws (RFF_init 1 2 ''rbf'') example_X (None :: int list option) 7
     = (Inr \<lparr>gamma = 1, kernel = ''rbf'', n_components = 2, fitted = True,
              w = Some \<lparr>ncols = 1, rows = [[7], [7]]\<rparr>, u = Some [8, 8]\<rparr>,
        \<lparr>gamma = 1, kernel = ''rbf'', n_components = 2, fitted = True,
              w = Some \<lparr>ncols = 1, rows = [[7], [7]]\<rparr>, u = Some [8, 8]\<rparr>, 9) \<and>
   RFF_fit counter_draws refitted_mapper example_X (Some [1, 2 :: int]) 7
     = (Inr \<lparr>gamma = 1, kernel = ''rbf'', n_components = 2, fitted = True,
              w = Some \<lparr>ncols = 1, rows = [[7], [7]]\<rparr>, u = Some [8, 8]\<rparr>,
        \<lparr>gamma = 1, kernel = ''rbf'', n_components = 2, fitted = True,
              w = Some \<lparr>ncols = 1, rows = [[7], [7]]\<rparr>, u = Some [8, 8]\<rparr>, 9)"
proof -
  have h1: "gamma (RFF_init (1::int) 2 ''rbf'') = gamma refitted_mapper"
    by (simp add: RFF_init_def refitted_mapper_def)
  have h2: "n_components (RFF_init (1::int) 2 ''rbf'') = n_components refitted_mapper"
    by (simp add: RFF_init_def refitted_mapper_def)
  have h3: "kernel (RFF_init (1::int) 2 ''rbf'') = kernel refitted_mapper"
    by (simp add: RFF_init_def refitted_mapper_def)
  have h4: "kernel (RFF_init (1::int) 2 ''rbf'') = ''rbf'' \<or>
            kernel (RFF_init (1::int) 2 ''rbf'') = ''laplace''"
    by (simp add: RFF_init_def)
  have h5: "RFF_fit counter_draws (RFF_init 1 2 ''rbf'') example_X (None :: int list option) 7
     = (Inr \<lparr>gamma = 1, kernel = ''rbf'', n_components = 2, fitted = True,
              w = Some \<lparr>ncols = 1, rows = [[7], [7]]\<rparr>, u = Some [8, 8]\<rparr>,
        \<lparr>gamma = 1, kernel = ''rbf'', n_components = 2, fitted = True,
              w = Some \<lparr>ncols = 1, rows = [[7], [7]]\<rparr>, u = Some [8, 8]\<rparr>, 9)"
    by code_simp
  have d: "w (RFF_init (1::int) 2 ''rbf'') \<noteq> w refitted_mapper"
    by (simp add: RFF_init_def refitted_mapper_def)
  note t = same_generator_state_same_draws
    [OF h1 h2 h3 h4 h5, of "Some [1, 2 :: int]", THEN conjunct1]
  show ?thesis
    using h1 d h5 t by blast
qed

subsection \<open>The regressor before \<open>fit\<close>\<close>

text \<open>
  Claim C5, as stated, fails: \<open>predict\<close> on a regressor that was never fitted does not
  raise \<open>NotFittedError\<close>.
\<close>

theorem unfitted_regressor_not_NotFitted:
  "fst (SparseGPModel_predict constant_gpy (SparseGPModel_init () 100) example_X)
     \<noteq> Inl NotFittedError"
  by (simp add: SparseGPModel_predict_def SparseGPModel_init_def)

text \<open>
  Claim C5, amended. \<open>SparseGPModel\<close> has no fitted flag and no check: on an instance on
  which \<open>fit\<close> has not been called, \<open>predict(X)\<close> fails for every \<open>X\<close> with the
  \<open>AttributeError\<close> of reading the attribute \<open>model_\<close> that only \<open>fit\<close> creates, and leaves
  the instance as it was.
\<close>

theorem unfitted_regressor_raises_AttributeError:
  "SparseGPModel_predict lib (SparseGPModel_init k n) X
     = (Inl (AttributeError ''model_''), SparseGPModel_init k n)"
  by (simp add: SparseGPModel_predict_def SparseGPModel_init_def)

subsection \<open>What \<open>predict\<close> of the regressor returns\<close>

text \<open>
  Claim C8, as stated, fails: on a fitted regressor \<open>predict\<close> returns one array, the mean,
  and not the pair of mean and variance that GPy computed.
\<close>

theorem predict_not_a_pair:
  "fst (SparseGPModel_predict constant_gpy example_regressor \<lparr>ncols = 1, rows = [[10], [20]]\<rparr>)
     = Inr (PArray \<lparr>ncols = 1, rows = [[0], [0]]\<rparr>) \<and>
   fst (SparseGPModel_predict constant_gpy example_regressor \<lparr>ncols = 1, rows = [[10], [20]]\<rparr>)
     \<noteq> Inr (PTuple [PArray \<lparr>ncols = 1, rows = [[0], [0]]\<rparr>,
                     PArray \<lparr>ncols = 1, rows = [[1], [1]]\<rparr>])"
  by (simp add: SparseGPModel_predict_def constant_gpy_def example_regressor_def)

text \<open>
  Claim C8, amended. For every fitted regressor and every query matrix on which GPy's
  \<open>predict\<close> returns the pair of mean and variance, \<open>predict\<close> of the regressor returns
  the mean alone, as an array; the variance is dropped. The instance is unchanged.
\<close>

theorem predict_returns_mean_only:
  assumes "model' self = Some m" and "gpy_predict lib m X = Inr (mean, variance)"
  shows "SparseGPModel_predict lib self X = (Inr (PArray mean), self)"
  using assms by (simp add: SparseGPModel_predict_def)

theorem predict_returns_mean_only_witness:
  "model' example_regressor = Some \<lparr>ncols = 1, rows = [[30], [10]]\<rparr> \<and>
   gpy_predict constant_gpy \<lparr>ncols = 1, rows = [[30], [10]]\<rparr> \<lparr>ncols = 1, rows = [[10], [20]]\<rparr>
     = Inr (\<lparr>ncols = 1, rows = [[0], [0]]\<rparr>, \<lparr>ncols = 1, rows = [[1], [1]]\<rparr>) \<and>
   SparseGPModel_predict constant_gpy example_regressor \<lparr>ncols = 1, rows = [[10], [20]]\<rparr>
     = (Inr (PArray \<lparr>ncols = 1, rows = [[0], [0]]\<rparr>), example_regressor)"
proof -
  have h1: "model' example_regressor = Some \<lparr>ncols = 1, rows = [[30], [10]]\<rparr>"
    by (simp add: example_regressor_def)
  have h2: "gpy_predict constant_gpy \<lparr>ncols = 1, rows = [[30], [10]]\<rparr>
                \<lparr>ncols = 1, rows = [[10], [20]]\<rparr>
     = Inr (\<lparr>ncols = 1, rows = [[0], [0]]\<rparr>, \<lparr>ncols = 1, rows = [[1], [1]]\<rparr>)"
    by (simp add: constant_gpy_def)
  show ?thesis
    using predict_returns_mean_only [OF h1 h2] h1 h2 by blast
qed

subsection \<open>The choice of the inducing inputs\<close>

lemma slice_to_is_take: "\<exists>k. slice_to xs m = take k xs"
  by (auto simp: slice_to_def)

lemma slice_to_of_permutation:
  assumes "is_permutation idx n"
  shows "distinct (slice_to idx m)" and "set (slice_to idx m) \<subseteq> {..<n}"
proof -
  obtain k where k: "slice_to idx m = take k idx"
    using slice_to_is_take by blast
  have idx: "distinct idx" "set idx = {..<n}"
    using assms by (simp_all add: is_permutation_def)
  show "distinct (slice_to idx m)"
    using idx(1) k by simp
  show "set (slice_to idx m) \<subseteq> {..<n}"
    using idx(2) k by (metis set_take_subset)
qed

lemma inducing_inputs_of_permutation:
  assumes "is_permutation idx (shape0 X)"
  shows "inducing_inputs X idx m
           = Inr \<lparr>ncols = ncols X, rows = map (\<lambda>i. rows X ! i) (slice_to idx m)\<rparr>"
proof -
  have "list_all (\<lambda>i. i < length (rows X)) (slice_to idx m)"
    using slice_to_of_permutation(2) [OF assms, of m]
    by (auto simp: list_all_iff shape0_def)
  then show ?thesis
    by (simp add: inducing_inputs_def take_rows_def)
qed

lemma card_arrangements_of_set:
  assumes "finite A"
  shows "card {q. distinct q \<and> set q = A} = fact (card A)"
proof -
  have eq: "{q. distinct q \<and> set q = A} = {q. length q = card A \<and> distinct q \<and> set q \<subseteq> A}"
  proof (intro set_eqI iffI)
    fix q assume "q \<in> {q. distinct q \<and> set q = A}"
    then show "q \<in> {q. length q = card A \<and> distinct q \<and> set q \<subseteq> A}"
      by (auto simp: distinct_card)
  next
    fix q assume "q \<in> {q. length q = card A \<and> distinct q \<and> set q \<subseteq> A}"
    then have q: "length q = card A" "distinct q" "set q \<subseteq> A" by simp_all
    have "card (set q) = card A" using q(1,2) by (simp add: distinct_card)
    then have "set q = A" using assms q(3) by (simp add: card_subset_eq)
    then show "q \<in> {q. distinct q \<and> set q = A}" using q(2) by simp
  qed
  have "card {q. length q = card A \<and> distinct q \<and> set q \<subseteq> A} = \<Prod>{card A - card A + 1 .. card A}"
    using assms by (intro card_lists_distinct_length_eq) simp_all
  then show ?thesis
    by (simp add: eq fact_prod)
qed

lemma permutations_with_prefix:
  assumes "distinct s" "set s \<subseteq> {..<n}"
  shows "{p. is_permutation p n \<and> take (length s) p = s}
         = (\<lambda>q. s @ q) ` {q. distinct q \<and> set q = {..<n} - set s}"
proof (intro set_eqI iffI)
  fix p assume "p \<in> {p. is_permutation p n \<and> take (length s) p = s}"
  then have p: "distinct p" "set p = {..<n}" "take (length s) p = s"
    by (simp_all add: is_permutation_def)
  have split: "p = s @ drop (length s) p"
    using p(3) by (metis append_take_drop_id)
  have "distinct (s @ drop (length s) p)" using p(1) split by simp
  then have d: "distinct (drop (length s) p)" "set s \<inter> set (drop (length s) p) = {}"
    by simp_all
  have "set s \<union> set (drop (length s) p) = {..<n}"
    using p(2) split by (metis set_append)
  then have "set (drop (length s) p) = {..<n} - set s"
    using d(2) by blast
  then show "p \<in> (\<lambda>q. s @ q) ` {q. distinct q \<and> set q = {..<n} - set s}"
    using d(1) split by blast
next
  fix p assume "p \<in> (\<lambda>q. s @ q) ` {q. distinct q \<and> set q = {..<n} - set s}"
  then obtain q where q: "p = s @ q" "distinct q" "set q = {..<n} - set s" by blast
  then show "p \<in> {p. is_permutation p n \<and> take (length s) p = s}"
    using assms by (auto simp: is_permutation_def)
qed

lemma card_permutations_with_prefix:
  assumes "distinct s" "set s \<subseteq> {..<n}"
  shows "card {p. is_permutation p n \<and> take (length s) p = s} = fact (n - length s)"
proof -
  have cardA: "card ({..<n} - set s) = n - length s"
    using assms by (simp add: card_Diff_subset distinct_card)
  have "card ((\<lambda>q. s @ q) ` {q. distinct q \<and> set q = {..<n} - set s})
        = card {q. distinct q \<and> set q = {..<n} - set s}"
    by (intro card_image) (simp add: inj_on_def)
  also have "\<dots> = fact (card ({..<n} - set s))"
    by (intro card_arrangements_of_set) simp
  finally show ?thesis
    using cardA by (simp add: permutations_with_prefix[OF assms])
qed

lemma count_selections:
  assumes "0 \<le> m" and "length s = nat m" and "distinct s" and "set s \<subseteq> {..<n}"
  shows "card {p. is_permutation p n \<and> slice_to p m = s} = fact (n - nat m)"
proof -
  have "{p. is_permutation p n \<and> slice_to p m = s}
        = {p. is_permutation p n \<and> take (length s) p = s}"
    using assms(1,2) by (auto simp: slice_to_def)
  then show ?thesis
    using card_permutations_with_prefix [OF assms(3,4)] assms(2) by simp
qed

text \<open>
  Claim C7. \<open>fit(X, y)\<close> takes no \<open>Z\<close>: it always chooses the inducing inputs itself. It
  draws a permutation \<open>idx\<close> of the \<open>N = X.shape[0]\<close> row numbers from numpy, and what it
  gives GPy's constructor as \<open>Z\<close> are the rows of \<open>X\<close> at the first \<open>M = self.num_inducing\<close>
  entries of \<open>idx\<close>; the outcome of \<open>fit\<close> is what GPy makes of that \<open>Z\<close>. For every
  permutation numpy may return, no row number is chosen twice, every chosen input is a
  row of \<open>X\<close>, and for \<open>0 \<le> M \<le> N\<close> exactly \<open>M\<close> are chosen. The choice is uniform: every
  sequence of \<open>M\<close> distinct row numbers is the choice for the same number \<open>(N - M)!\<close> of the
  \<open>N!\<close> permutations, which numpy draws with equal probability.
\<close>

theorem fit_selects_without_replacement:
  assumes "permutation (shape0 X) g = (idx, g')"
    and "is_permutation idx (shape0 X)"
  shows "SparseGPModel_fit lib permutation self X y g
           = (case SparseGPRegression lib X y (kernel' self)
                     \<lparr>ncols = ncols X,
                      rows = map (\<lambda>i. rows X ! i) (slice_to idx (num_inducing self))\<rparr> of
                Inl e \<Rightarrow> (Inl e, self, g')
              | Inr m0 \<Rightarrow>
                 (case inducing_inputs_fix lib m0 of
                    Inl e \<Rightarrow> (Inl e, self\<lparr>model' := Some m0\<rparr>, g')
                  | Inr m1 \<Rightarrow>
                     (case optimize lib 100 m1 of
                        Inl e \<Rightarrow> (Inl e, self\<lparr>model' := Some m1\<rparr>, g')
                      | Inr m2 \<Rightarrow> (Inr (), self\<lparr>model' := Some m2\<rparr>, g')))) \<and>
         distinct (slice_to idx (num_inducing self)) \<and>
         set (slice_to idx (num_inducing self)) \<subseteq> {..<shape0 X} \<and>
         set (map (\<lambda>i. rows X ! i) (slice_to idx (num_inducing self))) \<subseteq> set (rows X) \<and>
         (0 \<le> num_inducing self \<and> num_inducing self \<le> int (shape0 X) \<longrightarrow>
            length (slice_to idx (num_inducing self)) = nat (num_inducing self) \<and>
            (\<forall>s. length s = nat (num_inducing self) \<and> distinct s \<and> set s \<subseteq> {..<shape0 X} \<longrightarrow>
                 card {p. is_permutation p (shape0 X) \<and> slice_to p (num_inducing self) = s}
                   = fact (shape0 X - nat (num_inducing self))))"
proof -
  have idx: "distinct idx" "set idx = {..<shape0 X}"
    using assms(2) by (simp_all add: is_permutation_def)
  have len_idx: "length idx = shape0 X"
    using idx by (metis card_lessThan distinct_card)
  note dist = slice_to_of_permutation(1) [OF assms(2), of "num_inducing self"]
  note sub = slice_to_of_permutation(2) [OF assms(2), of "num_inducing self"]
  have fit: "SparseGPModel_fit lib permutation self X y g
           = (case SparseGPRegression lib X y (kernel' self)
                     \<lparr>ncols = ncols X,
                      rows = map (\<lambda>i. rows X ! i) (slice_to idx (num_inducing self))\<rparr> of
                Inl e \<Rightarrow> (Inl e, self, g')
              | Inr m0 \<Rightarrow>
                 (case inducing_inputs_fix lib m0 of
                    Inl e \<Rightarrow> (Inl e, self\<lparr>model' := Some m0\<rparr>, g')
                  | Inr m1 \<Rightarrow>
                     (case optimize lib 100 m1 of
                        Inl e \<Rightarrow> (Inl e, self\<lparr>model' := Some m1\<rparr>, g')
                      | Inr m2 \<Rightarrow> (Inr (), self\<lparr>model' := Some m2\<rparr>, g'))))"
    using assms(1) inducing_inputs_of_permutation [OF assms(2), of "num_inducing self"]
    by (simp add: SparseGPModel_fit_def)
  have rws: "set (map (\<lambda>i. rows X ! i) (slice_to idx (num_inducing self))) \<subseteq> set (rows X)"
    using sub by (auto simp: shape0_def)
  have cnt: "length (slice_to idx (num_inducing self)) = nat (num_inducing self) \<and>
            (\<forall>s. length s = nat (num_inducing self) \<and> distinct s \<and> set s \<subseteq> {..<shape0 X} \<longrightarrow>
                 card {p. is_permutation p (shape0 X) \<and> slice_to p (num_inducing self) = s}
                   = fact (shape0 X - nat (num_inducing self)))"
    if m: "0 \<le> num_inducing self" "num_inducing self \<le> int (shape0 X)"
  proof (intro conjI allI impI)
    show "length (slice_to idx (num_inducing self)) = nat (num_inducing self)"
      using m len_idx by (simp add: slice_to_def)
  next
    fix s :: "nat list"
    assume "length s = nat (num_inducing self) \<and> distinct s \<and> set s \<subseteq> {..<shape0 X}"
    then show "card {p. is_permutation p (shape0 X) \<and> slice_to p (num_inducing self) = s}
                   = fact (shape0 X - nat (num_inducing self))"
      using count_selections [OF m(1), of s "shape0 X"] by blast
  qed
  show ?thesis using fit dist sub rws cnt by blast
qed

theorem fit_selects_without_replacement_witness:
  "is_permutation [2, 0, 1] (shape0 example_X) \<and>
   SparseGPModel_fit constant_gpy (\<lambda>n g. ([2, 0, 1], g)) (SparseGPModel_init () 2)
       example_X example_y ()
     = (Inr (), \<lparr>kernel' = (), num_inducing = 2,
                 model' = Some \<lparr>ncols = 1, rows = [[30], [10]]\<rparr>\<rparr>, ()) \<and>
   distinct (slice_to [2, 0, 1 :: nat] 2) \<and>
   card {p. is_permutation p (shape0 example_X) \<and> slice_to p 2 = [2, 0]} = 1"
proof -
  define self :: "(unit, int array2) SparseGPModel" where "self = SparseGPModel_init () 2"
  have three: "{..<3::nat} = {0, 1, 2}"
    by auto
  have sh: "shape0 example_X = 3"
    by (simp add: shape0_def example_X_def)
  have ni: "num_inducing self = 2"
    by (simp add: self_def SparseGPModel_init_def)
  have h1: "(\<lambda>n g. ([2, 0, 1], g)) (shape0 example_X) () = ([2, 0, 1 :: nat], ())"
    by simp
  have h2: "is_permutation [2, 0, 1] (shape0 example_X)"
    by (auto simp: is_permutation_def sh three)
  note t = fit_selects_without_replacement
    [of "\<lambda>n g. ([2, 0, 1], g)" example_X "()" "[2, 0, 1]" "()" constant_gpy self example_y,
     OF h1 h2]
  have ev: "(case SparseGPRegression constant_gpy example_X example_y (kernel' self)
                     \<lparr>ncols = ncols example_X,
                      rows = map (\<lambda>i. rows example_X ! i) (slice_to [2, 0, 1] (num_inducing self))\<rparr> of
                Inl e \<Rightarrow> (Inl e, self, ())
              | Inr m0 \<Rightarrow>
                 (case inducing_inputs_fix constant_gpy m0 of
                    Inl e \<Rightarrow> (Inl e, self\<lparr>model' := Some m0\<rparr>, ())
                  | Inr m1 \<Rightarrow>
                     (case optimize constant_gpy 100 m1 of
                        Inl e \<Rightarrow> (Inl e, self\<lparr>model' := Some m1\<rparr>, ())
                      | Inr m2 \<Rightarrow> (Inr (), self\<lparr>model' := Some m2\<rparr>, ()))))
            = (Inr (), \<lparr>kernel' = (), num_inducing = 2,
                 model' = Some \<lparr>ncols = 1, rows = [[30], [10]]\<rparr>\<rparr>, ())"
    by (simp add: constant_gpy_def self_def SparseGPModel_init_def slice_to_def example_X_def)
  have fit: "SparseGPModel_fit constant_gpy (\<lambda>n g. ([2, 0, 1], g)) self example_X example_y ()
     = (Inr (), \<lparr>kernel' = (), num_inducing = 2,
                 model' = Some \<lparr>ncols = 1, rows = [[30], [10]]\<rparr>\<rparr>, ())"
    using t [THEN conjunct1] by (simp only: ev)
  have dist: "distinct (slice_to [2, 0, 1 :: nat] 2)"
    using t ni by simp
  have m: "0 \<le> num_inducing self \<and> num_inducing self \<le> int (shape0 example_X)"
    by (simp add: ni sh)
  have s: "length [2, 0 :: nat] = nat (num_inducing self) \<and> distinct [2, 0 :: nat] \<and>
           set [2, 0 :: nat] \<subseteq> {..<shape0 example_X}"
    by (simp add: ni sh)
  have "card {p. is_permutation p (shape0 example_X) \<and> slice_to p (num_inducing self) = [2, 0]}
            = fact (shape0 example_X - nat (num_inducing self))"
    using t m s by blast
  then have cnt: "card {p. is_permutation p (shape0 example_X) \<and> slice_to p 2 = [2, 0]} = 1"
    by (simp add: ni sh)
  show ?thesis
    using h2 fit dist cnt unfolding self_def by blast
qed

subsection \<open>The number of inducing points or features is not validated\<close>

text \<open>
  Claim C6, as stated, fails: with \<open>M = 5\<close> inducing points asked of \<open>N = 3\<close> training
  rows \<open>fit\<close> raises nothing and builds the model on the three rows; with \<open>M = 0\<close> the
  choice of inducing inputs is an array without rows, not an error; and the mapper's
  constructor accepts \<open>n_components = 0\<close>.
\<close>

theorem oversized_M_accepted:
  "SparseGPModel_fit constant_gpy (\<lambda>n g. ([2, 0, 1], g)) (SparseGPModel_init () 5)
       example_X example_y ()
     = (Inr (), \<lparr>kernel' = (), num_inducing = 5,
                 model' = Some \<lparr>ncols = 1, rows = [[30], [10], [20]]\<rparr>\<rparr>, ()) \<and>
   inducing_inputs example_X [2, 0, 1] 0 = Inr \<lparr>ncols = 1, rows = []\<rparr> \<and>
   RFF_init (1::int) 0 ''rbf''
     = \<lparr>gamma = 1, kernel = ''rbf'', n_components = 0, fitted = False, w = None, u = None\<rparr>"
  by (simp add: SparseGPModel_fit_def SparseGPModel_init_def constant_gpy_def example_X_def
      inducing_inputs_def take_rows_def slice_to_def shape0_def RFF_init_def)

text \<open>
  Claim C6, amended. Neither estimator validates \<open>M\<close>. The mapper's constructor stores
  any \<open>n_components\<close> and leaves the mapper unfitted. \<open>fit\<close> of the regressor, for any
  \<open>num_inducing\<close> (also \<open>M \<le> 0\<close> or \<open>M > N\<close>), hands the rows \<open>X[idx[:M]]\<close> of numpy's
  permutation to GPy, and succeeds whenever GPy's constructor, \<open>fix\<close> and \<open>optimize\<close>
  succeed on them; the only errors are the libraries'.
\<close>

theorem M_not_validated:
  assumes "permutation (shape0 X) g = (idx, g')"
    and "is_permutation idx (shape0 X)"
    and "SparseGPRegression lib X y (kernel' self)
           \<lparr>ncols = ncols X, rows = map (\<lambda>i. rows X ! i) (slice_to idx (num_inducing self))\<rparr>
         = Inr m0"
    and "inducing_inputs_fix lib m0 = Inr m1"
    and "optimize lib 100 m1 = Inr m2"
  shows "SparseGPModel_fit lib permutation self X y g
           = (Inr (), self\<lparr>model' := Some m2\<rparr>, g') \<and>
         n_components (RFF_init gm M k) = M \<and> \<not> fitted (RFF_init gm M k)"
  using assms inducing_inputs_of_permutation [OF assms(2), of "num_inducing self"]
  by (simp add: SparseGPModel_fit_def RFF_init_def)

theorem M_not_validated_witness:
  "is_permutation [2, 0, 1] (shape0 example_X) \<and>
   SparseGPModel_fit constant_gpy (\<lambda>n g. ([2, 0, 1], g)) (SparseGPModel_init () 7)
       example_X example_y ()
     = (Inr (), \<lparr>kernel' = (), num_inducing = 7,
                 model' = Some \<lparr>ncols = 1, rows = [[30], [10], [20]]\<rparr>\<rparr>, ()) \<and>
   n_components (RFF_init (1::int) (- 3) ''rbf'') = - 3 \<and>
   \<not> fitted (RFF_init (1::int) (- 3) ''rbf'')"
proof -
  define Z :: "int array2" where
    "Z = \<lparr>ncols = ncols example_X,
          rows = map (\<lambda>i. rows example_X ! i)
                     (slice_to [2, 0, 1] (num_inducing (SparseGPModel_init () 7
                        :: (unit, int array2) SparseGPModel)))\<rparr>"
  have three: "{..<3::nat} = {0, 1, 2}"
    by auto
  have h1: "(\<lambda>n g. ([2, 0, 1], g)) (shape0 example_X) () = ([2, 0, 1 :: nat], ())"
    by simp
  have h2: "is_permutation [2, 0, 1] (shape0 example_X)"
    by (auto simp: is_permutation_def shape0_def example_X_def three)
  have h3: "SparseGPRegression constant_gpy example_X example_y
              (kernel' (SparseGPModel_init () 7 :: (unit, int array2) SparseGPModel))
              \<lparr>ncols = ncols example_X,
               rows = map (\<lambda>i. rows example_X ! i)
                     (slice_to [2, 0, 1] (num_inducing (SparseGPModel_init () 7
                        :: (unit, int array2) SparseGPModel)))\<rparr> = Inr Z"
    by (simp add: constant_gpy_def Z_def)
  have h4: "inducing_inputs_fix constant_gpy Z = Inr Z"
    by (simp add: constant_gpy_def)
  have h5: "optimize constant_gpy 100 Z = Inr Z"
    by (simp add: constant_gpy_def)
  have ev: "(SparseGPModel_init () 7) \<lparr>model' := Some Z\<rparr>
      = \<lparr>kernel' = (), num_inducing = 7,
         model' = Some \<lparr>ncols = 1, rows = [[30], [10], [20]]\<rparr>\<rparr>"
    by (simp add: Z_def SparseGPModel_init_def slice_to_def example_X_def)
  note t = M_not_validated
    [of "\<lambda>n g. ([2, 0, 1], g)" example_X "()" "[2, 0, 1]" "()" constant_gpy example_y
        "SparseGPModel_init () 7" Z Z Z "1::int" "- 3" "''rbf''", OF h1 h2 h3 h4 h5]
  have fit: "SparseGPModel_fit constant_gpy (\<lambda>n g. ([2, 0, 1], g)) (SparseGPModel_init () 7)
       example_X example_y ()
     = (Inr (), \<lparr>kernel' = (), num_inducing = 7,
                 model' = Some \<lparr>ncols = 1, rows = [[30], [10], [20]]\<rparr>\<rparr>, ())"
    using t [THEN conjunct1] by (simp only: ev)
  show ?thesis
    using h2 fit t by blast
qed

end
